theory Spec2Isabelle
  imports Main "HOL-Library.Word"
begin

section \<open>Data model\<close>

text \<open>
  Python values that the cache only compares and renders (usage keys, version strings,
  timestamps, \<^verbatim>\<open>None\<close>, the schema version constant) are values of one type \<open>'v\<close>;
  the builtin \<^verbatim>\<open>unicode\<close> is a function of the environment. Text is a \<open>string\<close>,
  in which a character of code 128 or more stands for a code point outside ASCII. The
  source is Python 2: where it formats unicode text into a byte-string template, the
  text is encoded as ASCII, and \<^verbatim>\<open>UnicodeEncodeError\<close> is raised when it cannot be. An
  \<^verbatim>\<open>assert\<close> raises, as it does when Python runs without \<^verbatim>\<open>-O\<close>. Private names
  of the source lose their leading underscore: \<^verbatim>\<open>_encode_root_cache_key\<close> is
  \<open>encode_root_cache_key\<close>, \<^verbatim>\<open>_block_relations\<close> is \<open>block_relations\<close>.
\<close>

type_synonym bytes = "8 word list"

text \<open>The exceptions that the modelled code raises or lets through.\<close>

datatype 'v error =
    BlockStructureNotFound 'v
  | DoesNotExist
  | AssertionError
  | AttributeError string
  | TypeError string
  | ValueError string
  | UnicodeEncodeError
  | CorruptPayload
  | TierError string

text \<open>The in-memory block structure, as far as \<^verbatim>\<open>cache.py\<close> reads it.\<close>

record ('v, 'r, 't, 'd) block_structure =
  root_block_usage_key :: 'v
  block_relations :: 'r
  transformer_data :: 't
  block_data_map :: 'd

text \<open>
  An instance of the Django model \<^verbatim>\<open>BlockStructure\<close> of \<^verbatim>\<open>models.py\<close>: its five
  version fields and the file field \<open>data\<close>. The field is \<open>None\<close> when no file is
  associated with it, and otherwise the bytes of the file with the position that the
  next \<^verbatim>\<open>read()\<close> starts from, which is 0 in an instance that the manager has just
  loaded.
\<close>

record 'v bs_model =
  data_usage_key :: 'v
  data_version :: 'v
  data_edit_timestamp :: 'v
  transformers_schema_version :: 'v
  block_structure_schema_version :: 'v
  data :: "(bytes \<times> nat) option"

text \<open>
  What \<^verbatim>\<open>cache.py\<close> reads from its surroundings when it builds a key: the feature
  flag \<^verbatim>\<open>config.is_enabled(config.STORAGE_BACKING_FOR_CACHE)\<close>, the builtin
  \<^verbatim>\<open>unicode\<close> and the constant \<^verbatim>\<open>BlockStructureBlockData.VERSION\<close>. None of
  them is defined in the two modules, so they are parameters.
\<close>

record 'v settings =
  STORAGE_BACKING_FOR_CACHE :: bool
  unicode :: "'v \<Rightarrow> string"
  VERSION :: 'v

text \<open>
  The other imports: the codec \<^verbatim>\<open>zpickle\<close>/\<^verbatim>\<open>zunpickle\<close> of
  \<^verbatim>\<open>cache_utils\<close>, and the two calls made on the model manager
  \<^verbatim>\<open>cls.objects\<close>: \<^verbatim>\<open>get(data_usage_key=...)\<close> and
  \<^verbatim>\<open>update_or_create(**kwargs)\<close>, the latter returning the pair (object, created)
  and the new table.
\<close>

record ('v, 'r, 't, 'd, 'db) env = "'v settings" +
  zpickle :: "'r \<times> 't \<times> 'd \<Rightarrow> bytes"
  zunpickle :: "bytes \<Rightarrow> 'v error + 'r \<times> 't \<times> 'd"
  objects_get :: "'v \<Rightarrow> 'db \<Rightarrow> 'v error + 'v bs_model"
  objects_update_or_create ::
    "(string \<times> ('v, 'r, 't, 'd) block_structure) list \<Rightarrow> 'db
      \<Rightarrow> 'v error + ('v bs_model \<times> bool) \<times> 'db"

text \<open>
  The two tiers: the fast cache \<^verbatim>\<open>self._cache\<close>, a map from keys to the payload and
  the timeout it was set with, and the table behind \<^verbatim>\<open>cls.objects\<close>.
\<close>

record 'db state =
  cache :: "string \<rightharpoonup> bytes \<times> nat"
  db :: 'db

section \<open>\<^verbatim>\<open>models.py\<close>: the durable record\<close>

text \<open>
  \<^verbatim>\<open>get_serialized_data\<close>: \<^verbatim>\<open>return self.data.read()\<close>. The call returns the
  bytes from the position on and leaves the position at the end of the file, so a second
  call on the same instance returns the empty byte string. The result comes with the
  instance as the call leaves it.
\<close>

definition BlockStructure_get_serialized_data ::
  "'v bs_model \<Rightarrow> ('v error + bytes) \<times> 'v bs_model" where
  "BlockStructure_get_serialized_data self =
     (case data self of
        None \<Rightarrow> (Inl (ValueError ''data''), self)
      | Some (content, position) \<Rightarrow>
          (Inr (drop position content), self\<lparr>data := Some (content, length content)\<rparr>))"

text \<open>
  \<^verbatim>\<open>get_current\<close>: the manager's \<^verbatim>\<open>DoesNotExist\<close> becomes
  \<^verbatim>\<open>BlockStructureNotFound\<close>; any other failure of the manager passes through.
\<close>

definition BlockStructure_get_current ::
  "('v, 'r, 't, 'd, 'db) env \<Rightarrow> 'db state \<Rightarrow> 'v \<Rightarrow> 'v error + 'v bs_model" where
  "BlockStructure_get_current env st usage_key =
     (case objects_get env usage_key (db st) of
        Inl DoesNotExist \<Rightarrow> Inl (BlockStructureNotFound usage_key)
      | Inl e \<Rightarrow> Inl e
      | Inr m \<Rightarrow> Inr m)"

text \<open>
  \<^verbatim>\<open>update_or_create_with_data\<close>: the body is the single statement
  \<^verbatim>\<open>cls.objects.update_or_create(**kwargs)\<close>. Its result is dropped, the argument
  \<^verbatim>\<open>serialized_data\<close> is not used, and the method ends without a \<^verbatim>\<open>return\<close>: the
  caller receives Python's \<^verbatim>\<open>None\<close>, here \<open>Inr None\<close>.
\<close>

definition BlockStructure_update_or_create_with_data ::
  "('v, 'r, 't, 'd, 'db) env \<Rightarrow> 'db state \<Rightarrow> bytes
    \<Rightarrow> (string \<times> ('v, 'r, 't, 'd) block_structure) list
    \<Rightarrow> ('v error + 'v bs_model option) \<times> 'db state" where
  "BlockStructure_update_or_create_with_data env st serialized_data kwargs =
     (case objects_update_or_create env kwargs (db st) of
        Inl e \<Rightarrow> (Inl e, st)
      | Inr (obj_created, db') \<Rightarrow> (Inr None, st\<lparr>db := db'\<rparr>))"

text \<open>The overridden \<^verbatim>\<open>delete\<close> of the model: its body is \<^verbatim>\<open>pass\<close>.\<close>

definition BlockStructure_delete ::
  "'v bs_model \<Rightarrow> 'db state \<Rightarrow> ('v error + unit) \<times> 'db state" where
  "BlockStructure_delete self st = (Inr (), st)"

section \<open>\<^verbatim>\<open>cache.py\<close>: the key encoder\<close>

text \<open>\<^verbatim>\<open>sep.join(parts)\<close> of Python strings.\<close>

fun join :: "string \<Rightarrow> string list \<Rightarrow> string" where
  "join sep [] = []"
| "join sep [x] = x"
| "join sep (x # y # ys) = x @ sep @ join sep (y # ys)"

text \<open>\<^verbatim>\<open>getattr(bs_model, field_name)\<close> on the attributes that the model declares.\<close>

definition getattr_bs_model :: "'v bs_model \<Rightarrow> string \<Rightarrow> 'v option" where
  "getattr_bs_model m field_name =
     (if field_name = ''data_usage_key'' then Some (data_usage_key m)
      else if field_name = ''data_version'' then Some (data_version m)
      else if field_name = ''data_edit_timestamp'' then Some (data_edit_timestamp m)
      else if field_name = ''transformers_schema_version''
        then Some (transformers_schema_version m)
      else if field_name = ''block_structure_schema_version''
        then Some (block_structure_schema_version m)
      else None)"

text \<open>
  The generator of line 189:
  \<^verbatim>\<open>field_name + '@' + unicode(getattr(bs_model, field_name)) for field_name in [...]\<close>.
\<close>

fun key_parts ::
  "('v, 'z) settings_scheme \<Rightarrow> 'v bs_model \<Rightarrow> string list \<Rightarrow> 'v error + string list" where
  "key_parts env m [] = Inr []"
| "key_parts env m (field_name # rest) =
     (case getattr_bs_model m field_name of
        None \<Rightarrow> Inl (AttributeError field_name)
      | Some v \<Rightarrow>
          (case key_parts env m rest of
             Inl e \<Rightarrow> Inl e
           | Inr parts \<Rightarrow> Inr ((field_name @ ''@'' @ unicode env v) # parts)))"

definition key_field_names :: "string list" where
  "key_field_names =
     [''data_usage_key'',
      ''data_version'',
      ''data_edit_timestamp'',
      ''transformers_schema_version'',
      ''block_structure_schema_version'']"

text \<open>
  The conversion of unicode text to a byte string with Python 2's default codec, which
  is ASCII: \<^verbatim>\<open>str.format\<close> applies it to each unicode argument of a byte-string
  template.
\<close>

definition is_ascii :: "string \<Rightarrow> bool" where
  "is_ascii s = list_all (\<lambda>c. of_char c < (128::nat)) s"

definition encode_ascii :: "string \<Rightarrow> 'v error + string" where
  "encode_ascii s = (if is_ascii s then Inr s else Inl UnicodeEncodeError)"

text \<open>
  \<^verbatim>\<open>_encode_root_cache_key(cls, root_block_usage_key, bs_model)\<close>, with
  \<open>usage_key\<close> for its first parameter. The \<^verbatim>\<open>assert bs_model is not None\<close> is the
  \<open>None\<close> branch. The first branch joins unicode strings (\<^verbatim>\<open>u':'\<close> and the
  field names are unicode literals) and encodes nothing. The template of the second
  branch, \<^verbatim>\<open>"v{version}.root.key.{root_usage_key}"\<close>, is a byte string, and its two
  arguments are unicode, converted in the order of the template.
\<close>

definition encode_root_cache_key ::
  "('v, 'z) settings_scheme \<Rightarrow> 'v \<Rightarrow> 'v bs_model option \<Rightarrow> 'v error + string" where
  "encode_root_cache_key env usage_key bs_model =
     (if STORAGE_BACKING_FOR_CACHE env then
        (case bs_model of
           None \<Rightarrow> Inl AssertionError
         | Some m \<Rightarrow>
             (case key_parts env m key_field_names of
                Inl e \<Rightarrow> Inl e
              | Inr parts \<Rightarrow> Inr (join '':'' parts)))
      else
        (case encode_ascii (unicode env (VERSION env)) of
           Inl e \<Rightarrow> Inl e
         | Inr version \<Rightarrow>
             (case encode_ascii (unicode env usage_key) of
                Inl e \<Rightarrow> Inl e
              | Inr root_usage_key \<Rightarrow>
                  Inr (''v'' @ version @ ''.root.key.'' @ root_usage_key))))"

text \<open>
  A call site of the encoder: it has two parameters after \<^verbatim>\<open>cls\<close>, and a call that
  leaves one out raises \<^verbatim>\<open>TypeError\<close> before the body runs. \<open>None\<close> is an argument
  that the call does not supply.
\<close>

definition call_encode_root_cache_key ::
  "('v, 'z) settings_scheme \<Rightarrow> 'v option \<Rightarrow> 'v bs_model option option \<Rightarrow> 'v error + string" where
  "call_encode_root_cache_key env arg1 arg2 =
     (case arg1 of
        None \<Rightarrow> Inl (TypeError ''_encode_root_cache_key'')
      | Some usage_key \<Rightarrow>
          (case arg2 of
             None \<Rightarrow> Inl (TypeError ''_encode_root_cache_key'')
           | Some bs_model \<Rightarrow> encode_root_cache_key env usage_key bs_model))"

section \<open>\<^verbatim>\<open>cache.py\<close>: the orchestrator\<close>

text \<open>
  The methods that only read the two tiers return their result alone; \<open>add\<close> and
  \<open>delete\<close> return it with the new state. Calls of \<^verbatim>\<open>logger.info\<close> are left
  out.
\<close>

text \<open>\<^verbatim>\<open>_get_model\<close>. No method of the class calls it.\<close>

definition get_model ::
  "('v, 'r, 't, 'd, 'db) env \<Rightarrow> 'db state \<Rightarrow> 'v \<Rightarrow> 'v error + 'v bs_model option" where
  "get_model env st usage_key =
     (if STORAGE_BACKING_FOR_CACHE env then
        (case BlockStructure_get_current env st usage_key of
           Inl e \<Rightarrow> Inl e
         | Inr m \<Rightarrow> Inr (Some m))
      else Inr None)"

text \<open>
  \<^verbatim>\<open>_create_or_update_model\<close>: every keyword argument is the block structure
  itself.
\<close>

definition create_or_update_model ::
  "('v, 'r, 't, 'd, 'db) env \<Rightarrow> 'db state \<Rightarrow> ('v, 'r, 't, 'd) block_structure \<Rightarrow> bytes
    \<Rightarrow> ('v error + 'v bs_model option) \<times> 'db state" where
  "create_or_update_model env st block_structure serialized_data =
     (if STORAGE_BACKING_FOR_CACHE env then
        BlockStructure_update_or_create_with_data env st serialized_data
          [(''data_usage_key'', block_structure),
           (''data_version'', block_structure),
           (''data_edit_timestamp'', block_structure),
           (''transformers_schema_version'', block_structure),
           (''block_structure_schema_version'', block_structure)]
      else (Inr None, st))"

text \<open>\<^verbatim>\<open>_add_to_cache\<close>: \<^verbatim>\<open>self._cache.set(cache_key, serialized_data, timeout=60 * 60 * 24)\<close>.\<close>

definition add_to_cache ::
  "('v, 'r, 't, 'd, 'db) env \<Rightarrow> 'db state \<Rightarrow> ('v, 'r, 't, 'd) block_structure \<Rightarrow> bytes
    \<Rightarrow> 'v bs_model option \<Rightarrow> ('v error + unit) \<times> 'db state" where
  "add_to_cache env st block_structure serialized_data bs_model =
     (case encode_root_cache_key env (root_block_usage_key block_structure) bs_model of
        Inl e \<Rightarrow> (Inl e, st)
      | Inr cache_key \<Rightarrow>
          (let timeout_in_seconds = 60 * 60 * 24
           in (Inr (), st\<lparr>cache := (cache st)(cache_key \<mapsto> (serialized_data, timeout_in_seconds))\<rparr>)))"

text \<open>
  \<^verbatim>\<open>_get_from_cache\<close>: \<^verbatim>\<open>self._cache.get(cache_key)\<close> is \<^verbatim>\<open>None\<close> for a key that
  is not there; \<^verbatim>\<open>not serialized_data\<close> holds for \<^verbatim>\<open>None\<close> and for the empty
  byte string.
\<close>

definition get_from_cache ::
  "('v, 'r, 't, 'd, 'db) env \<Rightarrow> 'db state \<Rightarrow> 'v \<Rightarrow> 'v bs_model option \<Rightarrow> 'v error + bytes" where
  "get_from_cache env st usage_key bs_model =
     (case encode_root_cache_key env usage_key bs_model of
        Inl e \<Rightarrow> Inl e
      | Inr cache_key \<Rightarrow>
          (case map_option fst (cache st cache_key) of
             None \<Rightarrow> Inl (BlockStructureNotFound usage_key)
           | Some serialized_data \<Rightarrow>
               (if serialized_data = [] then Inl (BlockStructureNotFound usage_key)
                else Inr serialized_data)))"

text \<open>
  \<^verbatim>\<open>_get_from_store\<close>. With \<^verbatim>\<open>bs_model\<close> equal to \<^verbatim>\<open>None\<close> the call
  \<^verbatim>\<open>bs_model.get_serialized_data()\<close> raises \<^verbatim>\<open>AttributeError\<close>. The instance
  is the one that \<^verbatim>\<open>get\<close> has just obtained and does not use again, so what the
  read leaves of it is dropped.
\<close>

definition get_from_store ::
  "('v, 'r, 't, 'd, 'db) env \<Rightarrow> 'db state \<Rightarrow> 'v \<Rightarrow> 'v bs_model option \<Rightarrow> 'v error + bytes" where
  "get_from_store env st usage_key bs_model =
     (if \<not> STORAGE_BACKING_FOR_CACHE env then Inl (BlockStructureNotFound usage_key)
      else
        (case bs_model of
           None \<Rightarrow> Inl (AttributeError ''get_serialized_data'')
         | Some m \<Rightarrow> fst (BlockStructure_get_serialized_data m)))"

text \<open>\<^verbatim>\<open>_serialize\<close>.\<close>

definition serialize ::
  "('v, 'r, 't, 'd, 'db) env \<Rightarrow> ('v, 'r, 't, 'd) block_structure \<Rightarrow> bytes" where
  "serialize env block_structure =
     (let data_to_cache =
        (block_relations block_structure,
         transformer_data block_structure,
         block_data_map block_structure)
      in zpickle env data_to_cache)"

text \<open>
  Modelled from the spec: \<^verbatim>\<open>BlockStructureFactory.create_new\<close> of \<^verbatim>\<open>factory.py\<close>,
  which is not among the sources. The specification has it "reconstruct and return the
  in-memory BlockStructure anchored at \<open>root_id\<close>" from the three decoded tables.
\<close>

definition BlockStructureFactory_create_new ::
  "'v \<Rightarrow> 'r \<Rightarrow> 't \<Rightarrow> 'd \<Rightarrow> ('v, 'r, 't, 'd) block_structure" where
  "BlockStructureFactory_create_new usage_key relations tdata bdata =
     \<lparr>root_block_usage_key = usage_key,
      block_relations = relations,
      transformer_data = tdata,
      block_data_map = bdata\<rparr>"

text \<open>\<^verbatim>\<open>_deserialize\<close>.\<close>

definition deserialize ::
  "('v, 'r, 't, 'd, 'db) env \<Rightarrow> bytes \<Rightarrow> 'v \<Rightarrow> 'v error + ('v, 'r, 't, 'd) block_structure" where
  "deserialize env serialized_data usage_key =
     (case zunpickle env serialized_data of
        Inl e \<Rightarrow> Inl e
      | Inr (relations, tdata, bdata) \<Rightarrow>
          Inr (BlockStructureFactory_create_new usage_key relations tdata bdata))"

text \<open>\<^verbatim>\<open>add\<close>.\<close>

definition add ::
  "('v, 'r, 't, 'd, 'db) env \<Rightarrow> 'db state \<Rightarrow> ('v, 'r, 't, 'd) block_structure
    \<Rightarrow> ('v error + unit) \<times> 'db state" where
  "add env st block_structure =
     (let serialized_data = serialize env block_structure
      in case create_or_update_model env st block_structure serialized_data of
           (Inl e, st') \<Rightarrow> (Inl e, st')
         | (Inr bs_model, st') \<Rightarrow>
             add_to_cache env st' block_structure serialized_data bs_model)"

text \<open>
  The attributes of a \<^verbatim>\<open>BlockStructureCache\<close> object: the methods of the class, which
  derives from \<^verbatim>\<open>object\<close> alone, and \<^verbatim>\<open>_cache\<close>, which \<^verbatim>\<open>__init__\<close> sets.
\<close>

definition BlockStructureCache_attributes :: "string list" where
  "BlockStructureCache_attributes =
     [''__init__'', ''add'', ''get'', ''delete'', ''_get_model'',
      ''_create_or_update_model'', ''_add_to_cache'', ''_get_from_cache'',
      ''_get_from_store'', ''_serialize'', ''_deserialize'',
      ''_encode_root_cache_key'', ''_cache'']"

text \<open>
  The lookup \<^verbatim>\<open>self.<name>\<close> of a method that takes a usage key and returns the
  current model: \<^verbatim>\<open>_get_model\<close> is the one such attribute. A name that is not an
  attribute gives \<open>None\<close>, where Python raises \<^verbatim>\<open>AttributeError\<close>.
\<close>

definition getattr_self ::
  "string \<Rightarrow>
    (('v, 'r, 't, 'd, 'db) env \<Rightarrow> 'db state \<Rightarrow> 'v \<Rightarrow> 'v error + 'v bs_model option) option" where
  "getattr_self name =
     (if name \<in> set BlockStructureCache_attributes \<and> name = ''_get_model''
      then Some get_model else None)"

text \<open>
  Lines 72 to 77 of \<^verbatim>\<open>get\<close>: the \<^verbatim>\<open>try\<close> around \<^verbatim>\<open>_get_from_cache\<close>, whose
  \<^verbatim>\<open>except BlockStructureNotFound\<close> goes to \<^verbatim>\<open>_get_from_store\<close>, and the
  decoding of what either returned.
\<close>

definition get_with_model ::
  "('v, 'r, 't, 'd, 'db) env \<Rightarrow> 'db state \<Rightarrow> 'v \<Rightarrow> 'v bs_model option
    \<Rightarrow> 'v error + ('v, 'r, 't, 'd) block_structure" where
  "get_with_model env st usage_key bs_model =
     (case (case get_from_cache env st usage_key bs_model of
              Inl (BlockStructureNotFound k) \<Rightarrow> get_from_store env st usage_key bs_model
            | Inl e \<Rightarrow> Inl e
            | Inr serialized_data \<Rightarrow> Inr serialized_data) of
        Inl e \<Rightarrow> Inl e
      | Inr serialized_data \<Rightarrow> deserialize env serialized_data usage_key)"

text \<open>
  \<^verbatim>\<open>get\<close>. Line 70 calls \<^verbatim>\<open>self._get_current_model(root_block_usage_key)\<close>; the
  rest of the body is \<open>get_with_model\<close>.
\<close>

definition get ::
  "('v, 'r, 't, 'd, 'db) env \<Rightarrow> 'db state \<Rightarrow> 'v
    \<Rightarrow> 'v error + ('v, 'r, 't, 'd) block_structure" where
  "get env st usage_key =
     (case getattr_self ''_get_current_model'' of
        None \<Rightarrow> Inl (AttributeError ''_get_current_model'')
      | Some get_current_model \<Rightarrow>
          (case get_current_model env st usage_key of
             Inl e \<Rightarrow> Inl e
           | Inr bs_model \<Rightarrow> get_with_model env st usage_key bs_model))"

text \<open>
  \<^verbatim>\<open>delete\<close>: \<^verbatim>\<open>self._cache.delete(self._encode_root_cache_key(root_block_usage_key))\<close>.
  The argument is evaluated first, and the call of the encoder supplies the usage key
  only.
\<close>

definition delete ::
  "('v, 'r, 't, 'd, 'db) env \<Rightarrow> 'db state \<Rightarrow> 'v \<Rightarrow> ('v error + unit) \<times> 'db state" where
  "delete env st usage_key =
     (case call_encode_root_cache_key env (Some usage_key) None of
        Inl e \<Rightarrow> (Inl e, st)
      | Inr cache_key \<Rightarrow> (Inr (), st\<lparr>cache := (cache st)(cache_key := None)\<rparr>))"

section \<open>Properties of the key encoder\<close>

lemma key_parts_key_field_names:
  "key_parts env m key_field_names =
     Inr [''data_usage_key@'' @ unicode env (data_usage_key m),
          ''data_version@'' @ unicode env (data_version m),
          ''data_edit_timestamp@'' @ unicode env (data_edit_timestamp m),
          ''transformers_schema_version@'' @ unicode env (transformers_schema_version m),
          ''block_structure_schema_version@''
             @ unicode env (block_structure_schema_version m)]"
  by (simp add: key_field_names_def getattr_bs_model_def)

lemma storage_backed_key:
  "STORAGE_BACKING_FOR_CACHE env \<Longrightarrow>
   encode_root_cache_key env usage_key (Some m) =
     Inr (''data_usage_key@'' @ unicode env (data_usage_key m)
          @ '':data_version@'' @ unicode env (data_version m)
          @ '':data_edit_timestamp@'' @ unicode env (data_edit_timestamp m)
          @ '':transformers_schema_version@'' @ unicode env (transformers_schema_version m)
          @ '':block_structure_schema_version@''
          @ unicode env (block_structure_schema_version m))"
  by (simp add: encode_root_cache_key_def key_parts_key_field_names)

lemma storage_backed_key_needs_model:
  "STORAGE_BACKING_FOR_CACHE env \<Longrightarrow>
   encode_root_cache_key env usage_key None = Inl AssertionError"
  by (simp add: encode_root_cache_key_def)

lemma is_ascii_simps [simp]:
  "is_ascii [] = True"
  "is_ascii (c # s) = (of_char c < (128::nat) \<and> is_ascii s)"
  "is_ascii (s @ t) = (is_ascii s \<and> is_ascii t)"
  by (simp_all add: is_ascii_def)

lemma static_key_cases:
  "\<not> STORAGE_BACKING_FOR_CACHE env \<Longrightarrow>
   encode_root_cache_key env usage_key bs_model =
     (if is_ascii (unicode env (VERSION env)) \<and> is_ascii (unicode env usage_key)
      then Inr (''v'' @ unicode env (VERSION env) @ ''.root.key.'' @ unicode env usage_key)
      else Inl UnicodeEncodeError)"
  by (simp add: encode_root_cache_key_def encode_ascii_def)

lemma static_key:
  "\<not> STORAGE_BACKING_FOR_CACHE env \<Longrightarrow>
   is_ascii (unicode env (VERSION env)) \<Longrightarrow> is_ascii (unicode env usage_key) \<Longrightarrow>
   encode_root_cache_key env usage_key bs_model =
     Inr (''v'' @ unicode env (VERSION env) @ ''.root.key.'' @ unicode env usage_key)"
  by (simp add: static_key_cases)

lemma static_key_not_ascii:
  "\<not> STORAGE_BACKING_FOR_CACHE env \<Longrightarrow>
   \<not> (is_ascii (unicode env (VERSION env)) \<and> is_ascii (unicode env usage_key)) \<Longrightarrow>
   encode_root_cache_key env usage_key bs_model = Inl UnicodeEncodeError"
  by (simp add: static_key_cases)

text \<open>
  C5. With storage backing enabled, the key of a record is its five fields
  \<open>data_usage_key\<close>, \<open>data_version\<close>, \<open>data_edit_timestamp\<close>,
  \<open>transformers_schema_version\<close>, \<open>block_structure_schema_version\<close>, in this order,
  each as \<open>field_name@value\<close>, joined by \<open>:\<close>, for every root identifier and every
  record.
\<close>

theorem C5_storage_backed_key_format:
  "encode_root_cache_key (env\<lparr>STORAGE_BACKING_FOR_CACHE := True\<rparr>) usage_key (Some m) =
     Inr (join '':''
            [''data_usage_key'' @ ''@'' @ unicode env (data_usage_key m),
             ''data_version'' @ ''@'' @ unicode env (data_version m),
             ''data_edit_timestamp'' @ ''@'' @ unicode env (data_edit_timestamp m),
             ''transformers_schema_version'' @ ''@''
               @ unicode env (transformers_schema_version m),
             ''block_structure_schema_version'' @ ''@''
               @ unicode env (block_structure_schema_version m)])
   \<and> encode_root_cache_key (env\<lparr>STORAGE_BACKING_FOR_CACHE := True\<rparr>) usage_key (Some m) =
     Inr (''data_usage_key@'' @ unicode env (data_usage_key m)
          @ '':data_version@'' @ unicode env (data_version m)
          @ '':data_edit_timestamp@'' @ unicode env (data_edit_timestamp m)
          @ '':transformers_schema_version@'' @ unicode env (transformers_schema_version m)
          @ '':block_structure_schema_version@''
          @ unicode env (block_structure_schema_version m))"
  by (simp add: storage_backed_key)




text \<open>
  C7, as the claim has it, fails where storage backing is enabled: the encoder does not
  read the root identifier there, so two root identifiers with different renderings and
  the same record get the same key.
\<close>

theorem C7_root_identifier_ignored_counterexample:
  "unicode \<lparr>STORAGE_BACKING_FOR_CACHE = True, unicode = id, VERSION = ''1''\<rparr> ''R1''
     \<noteq> unicode \<lparr>STORAGE_BACKING_FOR_CACHE = True, unicode = id, VERSION = ''1''\<rparr> ''R2''
   \<and> encode_root_cache_key
       \<lparr>STORAGE_BACKING_FOR_CACHE = True, unicode = id, VERSION = ''1''\<rparr> ''R1''
       (Some \<lparr>data_usage_key = ''R1'', data_version = ''7'', data_edit_timestamp = ''None'',
              transformers_schema_version = ''3'', block_structure_schema_version = ''1'',
              data = None\<rparr>)
     = encode_root_cache_key
       \<lparr>STORAGE_BACKING_FOR_CACHE = True, unicode = id, VERSION = ''1''\<rparr> ''R2''
       (Some \<lparr>data_usage_key = ''R1'', data_version = ''7'', data_edit_timestamp = ''None'',
              transformers_schema_version = ''3'', block_structure_schema_version = ''1'',
              data = None\<rparr>)"
  by (simp add: storage_backed_key)

text \<open>
  Nor does a different \<open>data_usage_key\<close> alone make the keys differ when other fields
  differ too: the parts are joined without escaping, so a rendering that contains the
  text of a separator moves the boundary between two fields.
\<close>

lemma storage_backed_key_not_injective:
  "encode_root_cache_key
       \<lparr>STORAGE_BACKING_FOR_CACHE = True, unicode = id, VERSION = ''1''\<rparr> ''R''
       (Some \<lparr>data_usage_key = ''R'', data_version = ''x:data_version@y'',
              data_edit_timestamp = ''None'', transformers_schema_version = ''3'',
              block_structure_schema_version = ''1'', data = None\<rparr>)
     = encode_root_cache_key
       \<lparr>STORAGE_BACKING_FOR_CACHE = True, unicode = id, VERSION = ''1''\<rparr>
       ''R:data_version@x''
       (Some \<lparr>data_usage_key = ''R:data_version@x'', data_version = ''y'',
              data_edit_timestamp = ''None'', transformers_schema_version = ''3'',
              block_structure_schema_version = ''1'', data = None\<rparr>)"
  by (simp add: storage_backed_key)

text \<open>
  C7, amended. Two records that differ in one of the five fields, whose two values render
  differently, have different keys when storage backing is enabled, for any root
  identifiers and any files \<open>file_a\<close> and \<open>file_b\<close>; this covers records of two root
  identifiers, which differ in \<open>data_usage_key\<close>. With storage backing enabled the key
  is computed from the record alone: two root identifiers with one record have one key.
  With storage backing disabled, two root identifiers whose renderings differ and are
  ASCII, as is the rendering of the schema version constant, have different keys, for any
  records.
\<close>

theorem C7_key_sensitivity:
  assumes "unicode env a \<noteq> unicode env b"
  shows
    "encode_root_cache_key (env\<lparr>STORAGE_BACKING_FOR_CACHE := True\<rparr>) root_a
        (Some (m\<lparr>data_usage_key := a, data := file_a\<rparr>))
      \<noteq> encode_root_cache_key (env\<lparr>STORAGE_BACKING_FOR_CACHE := True\<rparr>) root_b
        (Some (m\<lparr>data_usage_key := b, data := file_b\<rparr>))
     \<and> encode_root_cache_key (env\<lparr>STORAGE_BACKING_FOR_CACHE := True\<rparr>) root_a
        (Some (m\<lparr>data_version := a, data := file_a\<rparr>))
      \<noteq> encode_root_cache_key (env\<lparr>STORAGE_BACKING_FOR_CACHE := True\<rparr>) root_b
        (Some (m\<lparr>data_version := b, data := file_b\<rparr>))
     \<and> encode_root_cache_key (env\<lparr>STORAGE_BACKING_FOR_CACHE := True\<rparr>) root_a
        (Some (m\<lparr>data_edit_timestamp := a, data := file_a\<rparr>))
      \<noteq> encode_root_cache_key (env\<lparr>STORAGE_BACKING_FOR_CACHE := True\<rparr>) root_b
        (Some (m\<lparr>data_edit_timestamp := b, data := file_b\<rparr>))
     \<and> encode_root_cache_key (env\<lparr>STORAGE_BACKING_FOR_CACHE := True\<rparr>) root_a
        (Some (m\<lparr>transformers_schema_version := a, data := file_a\<rparr>))
      \<noteq> encode_root_cache_key (env\<lparr>STORAGE_BACKING_FOR_CACHE := True\<rparr>) root_b
        (Some (m\<lparr>transformers_schema_version := b, data := file_b\<rparr>))
     \<and> encode_root_cache_key (env\<lparr>STORAGE_BACKING_FOR_CACHE := True\<rparr>) root_a
        (Some (m\<lparr>block_structure_schema_version := a, data := file_a\<rparr>))
      \<noteq> encode_root_cache_key (env\<lparr>STORAGE_BACKING_FOR_CACHE := True\<rparr>) root_b
        (Some (m\<lparr>block_structure_schema_version := b, data := file_b\<rparr>))
     \<and> encode_root_cache_key (env\<lparr>STORAGE_BACKING_FOR_CACHE := True\<rparr>) root_a (Some m)
      = encode_root_cache_key (env\<lparr>STORAGE_BACKING_FOR_CACHE := True\<rparr>) root_b (Some m)
     \<and> (is_ascii (unicode env (VERSION env)) \<and> is_ascii (unicode env a)
          \<and> is_ascii (unicode env b) \<longrightarrow>
        encode_root_cache_key (env\<lparr>STORAGE_BACKING_FOR_CACHE := False\<rparr>) a model_a
          \<noteq> encode_root_cache_key (env\<lparr>STORAGE_BACKING_FOR_CACHE := False\<rparr>) b model_b)"
  using assms by (simp add: storage_backed_key static_key)

theorem C7_key_sensitivity_witness:
  "unicode \<lparr>STORAGE_BACKING_FOR_CACHE = True, unicode = id, VERSION = ''1''\<rparr> ''R1''
     \<noteq> unicode \<lparr>STORAGE_BACKING_FOR_CACHE = True, unicode = id, VERSION = ''1''\<rparr> ''R2''
   \<and> is_ascii (unicode \<lparr>STORAGE_BACKING_FOR_CACHE = True, unicode = id, VERSION = ''1''\<rparr>
       (VERSION \<lparr>STORAGE_BACKING_FOR_CACHE = True, unicode = id, VERSION = ''1''\<rparr>))
   \<and> is_ascii (unicode \<lparr>STORAGE_BACKING_FOR_CACHE = True, unicode = id, VERSION = ''1''\<rparr>
       ''R1'')
   \<and> is_ascii (unicode \<lparr>STORAGE_BACKING_FOR_CACHE = True, unicode = id, VERSION = ''1''\<rparr>
       ''R2'')
   \<and> encode_root_cache_key
       \<lparr>STORAGE_BACKING_FOR_CACHE = True, unicode = id, VERSION = ''1''\<rparr> ''R1''
       (Some \<lparr>data_usage_key = ''R1'', data_version = ''7'', data_edit_timestamp = ''None'',
              transformers_schema_version = ''3'', block_structure_schema_version = ''1'',
              data = None\<rparr>)
     \<noteq> encode_root_cache_key
       \<lparr>STORAGE_BACKING_FOR_CACHE = True, unicode = id, VERSION = ''1''\<rparr> ''R2''
       (Some \<lparr>data_usage_key = ''R2'', data_version = ''7'', data_edit_timestamp = ''None'',
              transformers_schema_version = ''3'', block_structure_schema_version = ''1'',
              data = None\<rparr>)
   \<and> encode_root_cache_key
       \<lparr>STORAGE_BACKING_FOR_CACHE = True, unicode = id, VERSION = ''1''\<rparr> ''R1''
       (Some \<lparr>data_usage_key = ''R0'', data_version = ''7'', data_edit_timestamp = ''None'',
              transformers_schema_version = ''3'', block_structure_schema_version = ''1'',
              data = None\<rparr>)
     = encode_root_cache_key
       \<lparr>STORAGE_BACKING_FOR_CACHE = True, unicode = id, VERSION = ''1''\<rparr> ''R2''
       (Some \<lparr>data_usage_key = ''R0'', data_version = ''7'', data_edit_timestamp = ''None'',
              transformers_schema_version = ''3'', block_structure_schema_version = ''1'',
              data = None\<rparr>)
   \<and> encode_root_cache_key
       \<lparr>STORAGE_BACKING_FOR_CACHE = False, unicode = id, VERSION = ''1''\<rparr> ''R1'' None
     \<noteq> encode_root_cache_key
       \<lparr>STORAGE_BACKING_FOR_CACHE = False, unicode = id, VERSION = ''1''\<rparr> ''R2'' None"
proof -
  have distinct:
    "unicode \<lparr>STORAGE_BACKING_FOR_CACHE = True, unicode = id, VERSION = ''1''\<rparr> ''R1''
       \<noteq> unicode \<lparr>STORAGE_BACKING_FOR_CACHE = True, unicode = id, VERSION = ''1''\<rparr> ''R2''"
    by simp
  show ?thesis
    using C7_key_sensitivity
      [OF distinct, where root_a = "''R1''" and root_b = "''R2''"
         and m = "\<lparr>data_usage_key = ''R0'', data_version = ''7'',
                   data_edit_timestamp = ''None'', transformers_schema_version = ''3'',
                   block_structure_schema_version = ''1'', data = None\<rparr>"
         and file_a = None and file_b = None and model_a = None and model_b = None]
    by simp
qed

section \<open>Properties of the orchestrator\<close>

subsection \<open>What each method computes\<close>

lemma get_current_model_not_an_attribute:
  "''_get_current_model'' \<notin> set BlockStructureCache_attributes"
  by (simp add: BlockStructureCache_attributes_def)

lemma getattr_self_get_model: "getattr_self ''_get_model'' = Some get_model"
  by (simp add: getattr_self_def BlockStructureCache_attributes_def)

lemma getattr_self_get_current_model: "getattr_self ''_get_current_model'' = None"
  by (simp add: getattr_self_def)

lemma get_raises_AttributeError:
  "get env st usage_key = Inl (AttributeError ''_get_current_model'')"
  by (simp add: get_def getattr_self_get_current_model)

lemma delete_raises_TypeError:
  "delete env st usage_key = (Inl (TypeError ''_encode_root_cache_key''), st)"
  by (simp add: delete_def call_encode_root_cache_key_def)

lemma add_without_storage:
  "\<not> STORAGE_BACKING_FOR_CACHE env \<Longrightarrow>
   add env st bs =
     (if is_ascii (unicode env (VERSION env))
         \<and> is_ascii (unicode env (root_block_usage_key bs))
      then
        (Inr (),
         st\<lparr>cache := (cache st)
           (''v'' @ unicode env (VERSION env) @ ''.root.key.''
              @ unicode env (root_block_usage_key bs)
            \<mapsto> (zpickle env (block_relations bs, transformer_data bs, block_data_map bs),
                 86400))\<rparr>)
      else (Inl UnicodeEncodeError, st))"
  by (simp add: add_def serialize_def create_or_update_model_def add_to_cache_def
      static_key_cases)

lemma add_with_storage:
  "STORAGE_BACKING_FOR_CACHE env \<Longrightarrow>
   add env st bs =
     (case objects_update_or_create env
             [(''data_usage_key'', bs), (''data_version'', bs), (''data_edit_timestamp'', bs),
              (''transformers_schema_version'', bs), (''block_structure_schema_version'', bs)]
             (db st) of
        Inl e \<Rightarrow> (Inl e, st)
      | Inr (obj_created, db') \<Rightarrow> (Inl AssertionError, st\<lparr>db := db'\<rparr>))"
  by (simp add: add_def serialize_def create_or_update_model_def add_to_cache_def
      storage_backed_key_needs_model BlockStructure_update_or_create_with_data_def
      split: sum.splits prod.splits)

lemma get_from_cache_miss:
  "encode_root_cache_key env usage_key bs_model = Inr cache_key \<Longrightarrow>
   cache st cache_key = None \<or> (\<exists>t. cache st cache_key = Some ([], t)) \<Longrightarrow>
   get_from_cache env st usage_key bs_model = Inl (BlockStructureNotFound usage_key)"
  by (auto simp add: get_from_cache_def)

lemma get_from_cache_hit:
  "encode_root_cache_key env usage_key bs_model = Inr cache_key \<Longrightarrow>
   cache st cache_key = Some (payload, t) \<Longrightarrow> payload \<noteq> [] \<Longrightarrow>
   get_from_cache env st usage_key bs_model = Inr payload"
  by (simp add: get_from_cache_def)

text \<open>
  The body of \<open>get\<close> below its first line does what the docstring says. Without storage
  backing it returns the structure that \<open>add\<close> stored, when the codec decodes what it
  encoded and the payload is not the empty byte string.
\<close>

lemma add_then_get_with_model:
  assumes "\<not> STORAGE_BACKING_FOR_CACHE env"
      and "is_ascii (unicode env (VERSION env))"
      and "is_ascii (unicode env (root_block_usage_key bs))"
      and "zunpickle env (serialize env bs)
             = Inr (block_relations bs, transformer_data bs, block_data_map bs)"
      and "serialize env bs \<noteq> []"
  shows "get_with_model env (snd (add env st bs)) (root_block_usage_key bs) None = Inr bs"
  using assms
  by (simp add: get_with_model_def add_without_storage get_from_cache_def static_key
      deserialize_def BlockStructureFactory_create_new_def serialize_def)

text \<open>
  With storage backing and nothing in the fast cache, the same lines decode what the
  record's file gives from its position on.
\<close>

lemma get_with_model_from_store:
  "STORAGE_BACKING_FOR_CACHE env \<Longrightarrow>
   get_with_model env (st\<lparr>cache := Map.empty\<rparr>) usage_key (Some m) =
     (case data m of
        None \<Rightarrow> Inl (ValueError ''data'')
      | Some (content, position) \<Rightarrow> deserialize env (drop position content) usage_key)"
  by (simp add: get_with_model_def get_from_cache_def storage_backed_key get_from_store_def
      BlockStructure_get_serialized_data_def split: option.splits)

text \<open>A second \<^verbatim>\<open>get_serialized_data\<close> on one instance reads nothing.\<close>

lemma get_serialized_data_twice:
  "data m = Some (content, position) \<Longrightarrow>
   fst (BlockStructure_get_serialized_data m) = Inr (drop position content)
   \<and> fst (BlockStructure_get_serialized_data (snd (BlockStructure_get_serialized_data m)))
       = Inr []"
  by (simp add: BlockStructure_get_serialized_data_def)

subsection \<open>The claims about \<open>add\<close>, \<open>get\<close> and \<open>delete\<close>\<close>

text \<open>
  C1 asks that \<open>get\<close> returns the tables of a structure that \<open>add\<close> stored. Without
  storage backing \<open>add\<close> succeeds for every structure whose root identifier renders as
  ASCII, as the schema version constant does (it raises \<^verbatim>\<open>UnicodeEncodeError\<close> for
  the others), and the \<open>get\<close> that follows raises \<^verbatim>\<open>AttributeError\<close>: the class
  defines \<^verbatim>\<open>_get_model\<close>, and \<open>get\<close> calls \<^verbatim>\<open>_get_current_model\<close>.
\<close>

theorem C1_get_after_add_raises:
  "fst (add (env\<lparr>STORAGE_BACKING_FOR_CACHE := False\<rparr>) st bs)
     = (if is_ascii (unicode env (VERSION env))
           \<and> is_ascii (unicode env (root_block_usage_key bs))
        then Inr () else Inl UnicodeEncodeError)
   \<and> get (env\<lparr>STORAGE_BACKING_FOR_CACHE := False\<rparr>)
       (snd (add (env\<lparr>STORAGE_BACKING_FOR_CACHE := False\<rparr>) st bs))
       (root_block_usage_key bs)
     = Inl (AttributeError ''_get_current_model'')"
  by (simp add: add_without_storage get_raises_AttributeError)

text \<open>
  C2 asks that \<open>add\<close> succeeds and writes both tiers when storage backing is enabled.
  There \<open>add\<close> returns the manager's error when \<^verbatim>\<open>update_or_create\<close> fails, and
  raises \<^verbatim>\<open>AssertionError\<close> when it succeeds, because
  \<^verbatim>\<open>update_or_create_with_data\<close> returns \<^verbatim>\<open>None\<close>; so it never succeeds, and the
  fast cache is as it was.
\<close>

theorem C2_add_storage_backed_fails:
  "add (env\<lparr>STORAGE_BACKING_FOR_CACHE := True\<rparr>) st bs =
     (case objects_update_or_create env
             [(''data_usage_key'', bs), (''data_version'', bs), (''data_edit_timestamp'', bs),
              (''transformers_schema_version'', bs), (''block_structure_schema_version'', bs)]
             (db st) of
        Inl e \<Rightarrow> (Inl e, st)
      | Inr (obj_created, db') \<Rightarrow> (Inl AssertionError, st\<lparr>db := db'\<rparr>))
   \<and> fst (add (env\<lparr>STORAGE_BACKING_FOR_CACHE := True\<rparr>) st bs) \<noteq> Inr ()
   \<and> cache (snd (add (env\<lparr>STORAGE_BACKING_FOR_CACHE := True\<rparr>) st bs)) = cache st"
  by (simp add: add_with_storage split: sum.splits prod.splits)

text \<open>
  C3 asks that, with storage backing, \<open>get\<close> serves a structure from the record's file
  when the fast cache has lost it. \<open>add\<close> does not succeed there;
  \<^verbatim>\<open>update_or_create_with_data\<close> does the same whatever bytes it is given, so it
  stores none of them; and \<open>get\<close> raises \<^verbatim>\<open>AttributeError\<close> even when the manager
  holds a record whose file is the payload of the structure and the fast cache is empty.
\<close>

theorem C3_get_from_durable_record_raises:
  "fst (add (env\<lparr>STORAGE_BACKING_FOR_CACHE := True\<rparr>) st bs) \<noteq> Inr ()
   \<and> BlockStructure_update_or_create_with_data env st (serialize env bs) kwargs
     = BlockStructure_update_or_create_with_data env st [] kwargs
   \<and> get (env\<lparr>STORAGE_BACKING_FOR_CACHE := True,
              objects_get := \<lambda>k d. Inr (m\<lparr>data := Some (serialize env bs, 0)\<rparr>)\<rparr>)
       (st\<lparr>cache := Map.empty\<rparr>) (root_block_usage_key bs)
     = Inl (AttributeError ''_get_current_model'')"
  by (simp add: add_with_storage get_raises_AttributeError
      BlockStructure_update_or_create_with_data_def split: sum.splits prod.splits)

text \<open>
  C4 asks that \<open>delete\<close> removes the entry of the fast cache and that \<open>get\<close> succeeds
  afterwards. \<open>delete\<close> raises \<^verbatim>\<open>TypeError\<close> in every state, because it calls the
  encoder without \<^verbatim>\<open>bs_model\<close>, and leaves both tiers as they were: under the key of
  a structure, the fast cache holds after \<open>add\<close> and \<open>delete\<close> the entry that \<open>add\<close>
  wrote (or what it held before, where \<open>add\<close> could not format the key), and the
  \<open>get\<close> that follows raises \<^verbatim>\<open>AttributeError\<close>.
\<close>

theorem C4_delete_raises_and_removes_nothing:
  "delete env st usage_key = (Inl (TypeError ''_encode_root_cache_key''), st)
   \<and> cache (snd (delete (env\<lparr>STORAGE_BACKING_FOR_CACHE := False\<rparr>)
        (snd (add (env\<lparr>STORAGE_BACKING_FOR_CACHE := False\<rparr>) st bs))
        (root_block_usage_key bs)))
       (''v'' @ unicode env (VERSION env) @ ''.root.key.''
          @ unicode env (root_block_usage_key bs))
     = (if is_ascii (unicode env (VERSION env))
           \<and> is_ascii (unicode env (root_block_usage_key bs))
        then Some (serialize env bs, 86400)
        else cache st (''v'' @ unicode env (VERSION env) @ ''.root.key.''
                         @ unicode env (root_block_usage_key bs)))
   \<and> get env (snd (delete env st usage_key)) usage_key
     = Inl (AttributeError ''_get_current_model'')"
  by (simp add: delete_raises_TypeError add_without_storage serialize_def
      get_raises_AttributeError)

text \<open>
  C8 asks that \<open>get\<close> fails with \<^verbatim>\<open>BlockStructureNotFound\<close> for a root identifier
  that was never added. With an empty fast cache and a manager that has no record,
  \<open>get\<close> raises \<^verbatim>\<open>AttributeError\<close>, whether storage backing is enabled or not.
\<close>

theorem C8_get_of_unknown_root_raises:
  "get (env\<lparr>objects_get := \<lambda>k d. Inl DoesNotExist\<rparr>) (st\<lparr>cache := Map.empty\<rparr>) usage_key
     = Inl (AttributeError ''_get_current_model'')
   \<and> get (env\<lparr>objects_get := \<lambda>k d. Inl DoesNotExist\<rparr>) (st\<lparr>cache := Map.empty\<rparr>) usage_key
     \<noteq> Inl (BlockStructureNotFound usage_key)"
  by (simp add: get_raises_AttributeError)

text \<open>
  C9 asks that \<open>get\<close> treats an empty payload in the fast cache as a miss.
  \<^verbatim>\<open>_get_from_cache\<close> does: where it can format the key, an empty payload under the
  key and no entry under it both give \<^verbatim>\<open>BlockStructureNotFound\<close>. \<open>get\<close> does not
  reach it: in the same state it raises \<^verbatim>\<open>AttributeError\<close>.
\<close>

theorem C9_empty_payload_in_cache:
  "get_from_cache (env\<lparr>STORAGE_BACKING_FOR_CACHE := False\<rparr>)
       (st\<lparr>cache := (cache st)
          (''v'' @ unicode env (VERSION env) @ ''.root.key.'' @ unicode env usage_key
           \<mapsto> ([], t))\<rparr>)
       usage_key None
     = (if is_ascii (unicode env (VERSION env)) \<and> is_ascii (unicode env usage_key)
        then Inl (BlockStructureNotFound usage_key) else Inl UnicodeEncodeError)
   \<and> get_from_cache (env\<lparr>STORAGE_BACKING_FOR_CACHE := False\<rparr>)
       (st\<lparr>cache := (cache st)
          (''v'' @ unicode env (VERSION env) @ ''.root.key.'' @ unicode env usage_key
           := None)\<rparr>)
       usage_key None
     = (if is_ascii (unicode env (VERSION env)) \<and> is_ascii (unicode env usage_key)
        then Inl (BlockStructureNotFound usage_key) else Inl UnicodeEncodeError)
   \<and> get (env\<lparr>STORAGE_BACKING_FOR_CACHE := False\<rparr>)
       (st\<lparr>cache := (cache st)
          (''v'' @ unicode env (VERSION env) @ ''.root.key.'' @ unicode env usage_key
           \<mapsto> ([], t))\<rparr>)
       usage_key
     = Inl (AttributeError ''_get_current_model'')"
  by (simp add: get_raises_AttributeError get_from_cache_def static_key_cases)

section \<open>Properties of the durable record\<close>

text \<open>
  C10. The \<^verbatim>\<open>delete\<close> of a record returns without doing anything: the state after it
  is the state before it, so the table is the same and the manager finds what it found
  before.
\<close>

theorem C10_model_delete_changes_nothing:
  "BlockStructure_delete self st = (Inr (), st)
   \<and> db (snd (BlockStructure_delete self st)) = db st
   \<and> BlockStructure_get_current env (snd (BlockStructure_delete self st)) usage_key
     = BlockStructure_get_current env st usage_key"
  by (simp add: BlockStructure_delete_def)

end
